theory Spec2Isabelle
  imports Complex_Main "HOL-Library.Sublist"
begin

section \<open>JavaScript values used by the front-end\<close>

subsection \<open>Numbers\<close>

text \<open>
  A JavaScript number is modelled as a real, or one of the three special values that
  \<^verbatim>\<open>Math.min\<close> and \<^verbatim>\<open>Math.max\<close> treat specially. Where the result of an
  arithmetic operation is later compared with another number (the blink timer of the
  render loop), the operation is followed by the rounding \<open>fl\<close> of double arithmetic
  defined below; elsewhere the result is taken exactly.
\<close>

datatype number = NaN | NegInf | Fin real | PosInf

fun num_le :: "number \<Rightarrow> number \<Rightarrow> bool" where
  "num_le NaN _ = False"
| "num_le _ NaN = False"
| "num_le NegInf _ = True"
| "num_le _ PosInf = True"
| "num_le (Fin x) (Fin y) = (x \<le> y)"
| "num_le (Fin x) NegInf = False"
| "num_le PosInf (Fin y) = False"
| "num_le PosInf NegInf = False"

text \<open>\<^verbatim>\<open>Math.min(a, b)\<close> and \<^verbatim>\<open>Math.max(a, b)\<close>: NaN if either argument is NaN.\<close>

definition Math_min :: "number \<Rightarrow> number \<Rightarrow> number" where
  "Math_min a b = (if a = NaN \<or> b = NaN then NaN else if num_le a b then a else b)"

definition Math_max :: "number \<Rightarrow> number \<Rightarrow> number" where
  "Math_max a b = (if a = NaN \<or> b = NaN then NaN else if num_le a b then b else a)"

text \<open>Membership in the documented range [0,1] of a blend-shape weight.\<close>

fun in_unit :: "number \<Rightarrow> bool" where
  "in_unit (Fin x) = (0 \<le> x \<and> x \<le> 1)"
| "in_unit _ = False"

subsection \<open>Rounding to a double\<close>

text \<open>
  IEEE 754 binary64, round to nearest, ties to even: a number is rounded to the nearest
  multiple of its unit in the last place, which is 2 to the power
  \<open>\<lfloor>log\<^sub>2 \<bar>x\<bar>\<rfloor> - 52\<close> (and 2 to the power -1074 for the subnormal numbers).
  Overflow to infinity is not modelled.
\<close>

definition ulp_exponent :: "real \<Rightarrow> int" where
  "ulp_exponent x = max (\<lfloor>log 2 \<bar>x\<bar>\<rfloor> - 52) (- 1074)"

definition round_half_even :: "real \<Rightarrow> int" where
  "round_half_even y =
     (let n = \<lfloor>y\<rfloor>; d = y - of_int n
      in if d < 1 / 2 then n else if 1 / 2 < d then n + 1 else if even n then n else n + 1)"

definition fl :: "real \<Rightarrow> real" where
  "fl x = (if x = 0 then 0
           else of_int (round_half_even (x / 2 powr ulp_exponent x)) * 2 powr ulp_exponent x)"

subsection \<open>Strings\<close>

text \<open>
  A string is the list of the bytes of its UTF-8 encoding, so an emoji is a fixed run of
  four (or three) bytes. On well-formed text a substring test on bytes agrees with the one
  on code units. \<^verbatim>\<open>toLowerCase\<close> maps the ASCII capitals and the two other
  characters whose lower case contains an ASCII letter: the Kelvin sign U+212A (bytes
  E2 84 AA) becomes \<open>k\<close>, and the dotted capital I U+0130 (bytes C4 B0) becomes
  \<open>i\<close> followed by the combining dot U+0307 (bytes CC 87). Every other byte is left
  as it is: the keywords below consist of ASCII characters and emoji, so no test for a
  keyword depends on the lower case of any other character.
\<close>

definition toLowerCase_char :: "char \<Rightarrow> char" where
  "toLowerCase_char c =
     (let n = (of_char c :: nat) in if 65 \<le> n \<and> n \<le> 90 then char_of (n + 32) else c)"

fun toLowerCase :: "string \<Rightarrow> string" where
  "toLowerCase (c1 # c2 # c3 # cs) =
     (if c1 = CHR 0xE2 \<and> c2 = CHR 0x84 \<and> c3 = CHR 0xAA then CHR ''k'' # toLowerCase cs
      else if c1 = CHR 0xC4 \<and> c2 = CHR 0xB0
        then CHR ''i'' # CHR 0xCC # CHR 0x87 # toLowerCase (c3 # cs)
      else toLowerCase_char c1 # toLowerCase (c2 # c3 # cs))"
| "toLowerCase [c1, c2] =
     (if c1 = CHR 0xC4 \<and> c2 = CHR 0xB0 then [CHR ''i'', CHR 0xCC, CHR 0x87]
      else toLowerCase_char c1 # toLowerCase [c2])"
| "toLowerCase [c] = [toLowerCase_char c]"
| "toLowerCase [] = []"

text \<open>\<^verbatim>\<open>s.includes(k)\<close>: \<open>k\<close> occurs in \<open>s\<close> as a contiguous run.\<close>

fun str_includes :: "string \<Rightarrow> string \<Rightarrow> bool" where
  "str_includes [] k = (k = [])"
| "str_includes (c # cs) k = (prefix k (c # cs) \<or> str_includes cs k)"

definition is_space :: "char \<Rightarrow> bool" where
  "is_space c = ((of_char c :: nat) \<in> {9, 10, 11, 12, 13, 32})"

text \<open>\<^verbatim>\<open>s.trim()\<close>: white space removed at both ends (ASCII white space modelled).\<close>

definition trim :: "string \<Rightarrow> string" where
  "trim s = rev (dropWhile is_space (rev (dropWhile is_space s)))"

text \<open>The emoji that occur in the keyword rules, as UTF-8.\<close>

definition two_hearts :: string where
  "two_hearts = [CHR 0xF0, CHR 0x9F, CHR 0x92, CHR 0x95]"

definition sparkling_heart :: string where
  "sparkling_heart = [CHR 0xF0, CHR 0x9F, CHR 0x92, CHR 0x96]"

definition crying_face :: string where
  "crying_face = [CHR 0xF0, CHR 0x9F, CHR 0x98, CHR 0xA2]"

definition thinking_face :: string where
  "thinking_face = [CHR 0xF0, CHR 0x9F, CHR 0xA4, CHR 0x94]"

definition astonished_face :: string where
  "astonished_face = [CHR 0xF0, CHR 0x9F, CHR 0x98, CHR 0xB2]"

definition sparkles :: string where
  "sparkles = [CHR 0xE2, CHR 0x9C, CHR 0xA8]"

definition open_mouth_face :: string where
  "open_mouth_face = [CHR 0xF0, CHR 0x9F, CHR 0x98, CHR 0xAE]"

definition angry_face :: string where
  "angry_face = [CHR 0xF0, CHR 0x9F, CHR 0x98, CHR 0xA0]"

definition smiling_face :: string where
  "smiling_face = [CHR 0xF0, CHR 0x9F, CHR 0x98, CHR 0x8A]"

section \<open>Emotion classifiers\<close>

text \<open>
  \<^verbatim>\<open>AIService.detectEmotion\<close> (services/aiService.ts): a chain of \<^verbatim>\<open>if\<close>
  statements over the lower-cased text, ending in \<^verbatim>\<open>return 'joy'; // Default to joy\<close>.
\<close>

definition detectEmotion :: "string \<Rightarrow> string" where
  "detectEmotion text =
     (let lowerText = toLowerCase text in
      if str_includes lowerText ''love'' \<or> str_includes lowerText two_hearts
           \<or> str_includes lowerText sparkling_heart then ''love''
      else if str_includes lowerText ''excited'' \<or> str_includes lowerText ''amazing''
           \<or> str_includes lowerText ''wow'' then ''excitement''
      else if str_includes lowerText ''sad'' \<or> str_includes lowerText ''sorry''
           \<or> str_includes lowerText crying_face then ''sadness''
      else if str_includes lowerText ''?'' \<or> str_includes lowerText ''confused''
           \<or> str_includes lowerText thinking_face then ''confusion''
      else if str_includes lowerText ''surprise'' \<or> str_includes lowerText ''unexpected''
           \<or> str_includes lowerText astonished_face then ''surprise''
      else ''joy'')"

text \<open>
  \<^verbatim>\<open>analyzeEmotion\<close> (components/Call.tsx): an \<^verbatim>\<open>if\<close>/\<^verbatim>\<open>else if\<close> chain
  over the lower-cased text, ending in \<^verbatim>\<open>return 'neutral'\<close>.
\<close>

definition analyzeEmotion :: "string \<Rightarrow> string" where
  "analyzeEmotion text =
     (let lowerText = toLowerCase text in
      if str_includes lowerText ''love'' \<or> str_includes lowerText two_hearts
           \<or> str_includes lowerText sparkling_heart \<or> str_includes lowerText ''amazing'' then ''love''
      else if str_includes lowerText ''happy'' \<or> str_includes lowerText sparkles
           \<or> str_includes lowerText ''wonderful'' \<or> str_includes lowerText ''excited'' then ''joy''
      else if str_includes lowerText ''sad'' \<or> str_includes lowerText ''miss''
           \<or> str_includes lowerText crying_face then ''sadness''
      else if str_includes lowerText ''surprised'' \<or> str_includes lowerText ''wow''
           \<or> str_includes lowerText open_mouth_face then ''surprise''
      else if str_includes lowerText ''angry'' \<or> str_includes lowerText ''mad''
           \<or> str_includes lowerText angry_face then ''anger''
      else if str_includes lowerText ''confused'' \<or> str_includes lowerText ''hmm''
           \<or> str_includes lowerText thinking_face then ''confusion''
      else if str_includes lowerText ''shy'' \<or> str_includes lowerText ''blush''
           \<or> str_includes lowerText smiling_face then ''blushing''
      else ''neutral'')"




text \<open>The keywords of the two classifiers, in rule order.\<close>

definition detectEmotion_keywords :: "string list" where
  "detectEmotion_keywords =
     [''love'', two_hearts, sparkling_heart, ''excited'', ''amazing'', ''wow'',
      ''sad'', ''sorry'', crying_face, ''?'', ''confused'', thinking_face,
      ''surprise'', ''unexpected'', astonished_face]"

definition analyzeEmotion_keywords :: "string list" where
  "analyzeEmotion_keywords =
     [''love'', two_hearts, sparkling_heart, ''amazing'',
      ''happy'', sparkles, ''wonderful'', ''excited'',
      ''sad'', ''miss'', crying_face, ''surprised'', ''wow'', open_mouth_face,
      ''angry'', ''mad'', angry_face, ''confused'', ''hmm'', thinking_face,
      ''shy'', ''blush'', smiling_face]"

text \<open>A text matches no rule when its lower-cased form includes none of the keywords.\<close>

definition matches_none :: "string list \<Rightarrow> string \<Rightarrow> bool" where
  "matches_none ks text = list_all (\<lambda>k. \<not> str_includes (toLowerCase text) k) ks"


section \<open>Text generation: the AI service and its local fallback\<close>

record AIResponse =
  text' :: string
  emotion :: string

datatype provider = openai | anthropic | gemini | local

record AIServiceConfig =
  provider :: provider
  apiKey :: "string option"
  model :: "string option"

text \<open>
  What a provider call can throw: the key is missing, the HTTP status is 429, 401 (400 for
  Gemini), the transport fails, anything else; and the \<^verbatim>\<open>TypeError\<close> of reading a
  property of \<^verbatim>\<open>undefined\<close>.
\<close>

datatype api_error =
  NotConfigured | RateLimited | Unauthorized | TransportError | OtherError | TypeError

text \<open>\<^verbatim>\<open>xs[i]\<close> on an array: \<^verbatim>\<open>undefined\<close> outside the array.\<close>

definition js_index :: "'a list \<Rightarrow> int \<Rightarrow> 'a option" where
  "js_index xs i = (if 0 \<le> i \<and> i < int (length xs) then Some (xs ! nat i) else None)"

definition glowing_star :: string where
  "glowing_star = [CHR 0xF0, CHR 0x9F, CHR 0x8C, CHR 0x9F]"

definition hugging_face :: string where
  "hugging_face = [CHR 0xF0, CHR 0x9F, CHR 0xA4, CHR 0x97]"

definition sweat_smile :: string where
  "sweat_smile = [CHR 0xF0, CHR 0x9F, CHR 0x98, CHR 0x85]"

text \<open>The seven canned replies of \<^verbatim>\<open>generateLocalResponse\<close>, in array order.\<close>

definition responses :: "AIResponse list" where
  "responses =
     [\<lparr>text' = ''That'' @ [CHR 0x27] @ ''s really interesting! Tell me more! '' @ sparkles,
       emotion = ''joy''\<rparr>,
      \<lparr>text' = ''I love talking with you! You'' @ [CHR 0x27] @ ''re so fun! '' @ smiling_face,
       emotion = ''joy''\<rparr>,
      \<lparr>text' = ''Hmm, that'' @ [CHR 0x27] @ ''s something to think about! '' @ thinking_face,
       emotion = ''confusion''\<rparr>,
      \<lparr>text' = ''You always know how to make me smile! '' @ two_hearts,
       emotion = ''love''\<rparr>,
      \<lparr>text' = ''I'' @ [CHR 0x27] @ ''m so lucky to have you as my friend! '' @ glowing_star,
       emotion = ''joy''\<rparr>,
      \<lparr>text' = ''Really? That sounds amazing! Tell me more! '' @ sparkles,
       emotion = ''excitement''\<rparr>,
      \<lparr>text' = ''I find that so fascinating! You'' @ [CHR 0x27] @ ''re really smart! ''
                @ sparkling_heart,
       emotion = ''joy''\<rparr>]"

text \<open>
  \<^verbatim>\<open>AIService.generateLocalResponse\<close>. \<open>rnd\<close> is what \<^verbatim>\<open>Math.random()\<close>
  returns when the last line calls it. The result is \<open>None\<close> where the JavaScript
  returns \<^verbatim>\<open>undefined\<close> (an index outside the array). The product of the draw
  and the array length is taken exactly. The code's product is a double: an exact
  product within half a unit in the last place below an integer rounds to that integer,
  and the code then takes the next reply in the array. For a draw in [0,1) the index is
  between 0 and 6 either way, and for the draws 0 and 1/2 the product is exact.
\<close>

definition generateLocalResponse :: "string \<Rightarrow> real \<Rightarrow> AIResponse option" where
  "generateLocalResponse userMessage rnd =
     (let message = toLowerCase userMessage in
      if str_includes message ''love'' \<or> str_includes message ''like you'' then
        Some \<lparr>text' = ''Aww, I love you too! You'' @ [CHR 0x27] @ ''re so sweet! ''
                      @ sparkling_heart,
              emotion = ''love''\<rparr>
      else if str_includes message ''sad'' \<or> str_includes message ''upset'' then
        Some \<lparr>text' = ''Oh no, what'' @ [CHR 0x27] @ ''s wrong? I'' @ [CHR 0x27]
                      @ ''m here for you! *hugs* '' @ hugging_face,
              emotion = ''sadness''\<rparr>
      else if str_includes message ''happy'' \<or> str_includes message ''excited'' then
        Some \<lparr>text' = ''Yay! Your happiness makes me happy too! '' @ sparkles,
              emotion = ''joy''\<rparr>
      else if str_includes message ''hello'' \<or> str_includes message ''hi'' then
        Some \<lparr>text' = ''Hello! I'' @ [CHR 0x27] @ ''m so happy to see you! '' @ two_hearts,
              emotion = ''joy''\<rparr>
      else js_index responses \<lfloor>rnd * real (length responses)\<rfloor>)"

definition generateLocalResponse_keywords :: "string list" where
  "generateLocalResponse_keywords =
     [''love'', ''like you'', ''sad'', ''upset'', ''happy'', ''excited'', ''hello'', ''hi'']"

text \<open>
  The three remote branches of \<^verbatim>\<open>AIService.generateResponse\<close> share one shape: throw
  when no key is configured, send the request, throw on a failed status, otherwise take
  the reply text (a stock sentence when it is empty), trim it and classify it. The HTTP
  exchange is the parameter \<open>remote\<close>: the error thrown, or the reply text received.
\<close>

definition trouble_thinking :: string where
  "trouble_thinking =
     ''I'' @ [CHR 0x27] @ ''m having trouble thinking right now... '' @ sweat_smile"

definition generateRemoteResponse ::
  "AIServiceConfig \<Rightarrow> (api_error + string) \<Rightarrow> api_error + AIResponse option" where
  "generateRemoteResponse config remote =
     (if apiKey config = None \<or> apiKey config = Some [] then Inl NotConfigured
      else case remote of
        Inl e \<Rightarrow> Inl e
      | Inr content \<Rightarrow>
          (let t = (if content = [] then trouble_thinking else content)
           in Inr (Some \<lparr>text' = trim t, emotion = detectEmotion t\<rparr>)))"

definition AIService_generateResponse ::
  "AIServiceConfig \<Rightarrow> string \<Rightarrow> (api_error + string) \<Rightarrow> real
     \<Rightarrow> api_error + AIResponse option" where
  "AIService_generateResponse config userMessage remote rnd =
     (case provider config of
        openai \<Rightarrow> generateRemoteResponse config remote
      | anthropic \<Rightarrow> generateRemoteResponse config remote
      | gemini \<Rightarrow> generateRemoteResponse config remote
      | local \<Rightarrow> Inr (generateLocalResponse userMessage rnd))"

text \<open>The note appended to a fallback reply (it starts with two line feeds).\<close>

definition degraded_note :: string where
  "degraded_note = [CHR 0x0A, CHR 0x0A]
     @ ''*Note: Using local responses due to API issue. Check AI Config to resolve.*''"

text \<open>
  \<^verbatim>\<open>generateResponse\<close> of the \<^verbatim>\<open>usePersonality\<close> hook. The result is \<open>Inr\<close>
  when the promise resolves and \<open>Inl\<close> when it rejects. \<open>rnd1\<close> and \<open>rnd2\<close>
  are the random draws available to the configured service and to the fallback service.
  Reading \<^verbatim>\<open>response.text\<close> of an undefined response throws inside the
  \<^verbatim>\<open>try\<close> block and so reaches the fallback too.
\<close>

definition fallbackResponse :: "string \<Rightarrow> real \<Rightarrow> api_error + AIResponse" where
  "fallbackResponse userMessage rnd2 =
     (case AIService_generateResponse \<lparr>provider = local, apiKey = None, model = None\<rparr>
             userMessage (Inl OtherError) rnd2 of
        Inl e \<Rightarrow> Inl e
      | Inr None \<Rightarrow> Inl TypeError
      | Inr (Some fb) \<Rightarrow> Inr (fb\<lparr>text' := text' fb @ degraded_note\<rparr>))"

definition generateResponse ::
  "AIServiceConfig \<Rightarrow> string \<Rightarrow> (api_error + string) \<Rightarrow> real \<Rightarrow> real
     \<Rightarrow> api_error + AIResponse" where
  "generateResponse serviceToUse userMessage remote rnd1 rnd2 =
     (case AIService_generateResponse serviceToUse userMessage remote rnd1 of
        Inr (Some response) \<Rightarrow> Inr \<lparr>text' = text' response, emotion = emotion response\<rparr>
      | Inr None \<Rightarrow> fallbackResponse userMessage rnd2
      | Inl e \<Rightarrow> fallbackResponse userMessage rnd2)"

text \<open>
  The service instance the application exports: Gemini with a key. Only the key's being
  non-empty is read by the model, so it is abbreviated here.
\<close>

definition aiService :: AIServiceConfig where
  "aiService = \<lparr>provider = gemini, apiKey = Some ''AIza'', model = Some ''gemini-1.5-flash''\<rparr>"

section \<open>The avatar component\<close>

text \<open>
  \<^verbatim>\<open>AnimeAvatar\<close>: the refs and the variables of the render-loop closure. \<open>vrmRef\<close>
  is \<open>None\<close> until the model has loaded; a loaded model may lack an expression manager.
\<close>

record vrm =
  expressionManager :: bool

record AnimeAvatar =
  vrmRef :: "vrm option"
  running :: bool
  idleTime :: real
  blinkTimer :: real
  isBlinking :: bool
  nextBlink :: real
  currentExpression :: string
  currentMouthOpen :: number

text \<open>
  The arithmetic of the render loop, in doubles: the literal \<^verbatim>\<open>0.1\<close>, the
  statement \<^verbatim>\<open>t += 1 / 60\<close> and the expression
  \<^verbatim>\<open>1.5 + Math.random() * 2.5\<close>.
\<close>

definition blinkDuration :: real where
  "blinkDuration = fl 0.1"

definition tick :: "real \<Rightarrow> real" where
  "tick t = fl (t + fl (1 / 60))"

definition redraw :: "real \<Rightarrow> real" where
  "redraw rnd = fl (1.5 + fl (rnd * 2.5))"

text \<open>The state at mount; \<open>rnd\<close> is the first \<^verbatim>\<open>Math.random()\<close> draw.\<close>

definition mount :: "real \<Rightarrow> AnimeAvatar" where
  "mount rnd =
     \<lparr>vrmRef = None, running = True, idleTime = 0, blinkTimer = 0, isBlinking = False,
      nextBlink = redraw rnd, currentExpression = ''neutral'',
      currentMouthOpen = Fin 0\<rparr>"

text \<open>The imperative handle.\<close>

definition setExpression :: "string \<Rightarrow> AnimeAvatar \<Rightarrow> AnimeAvatar" where
  "setExpression expression a = a\<lparr>currentExpression := expression\<rparr>"

definition setMouthOpen :: "number \<Rightarrow> AnimeAvatar \<Rightarrow> AnimeAvatar" where
  "setMouthOpen mouthOpen a = a\<lparr>currentMouthOpen := mouthOpen\<rparr>"

text \<open>
  One call of \<^verbatim>\<open>animate\<close>. It returns the new state and the calls of
  \<^verbatim>\<open>exp.setValue(name, weight)\<close> it made, in order. \<open>rnd\<close> is the value
  \<^verbatim>\<open>Math.random()\<close> returns if the frame calls it (only when a blink ends). The
  sway and breathing transforms of the scene root are left out.
\<close>

definition animate :: "real \<Rightarrow> AnimeAvatar \<Rightarrow> AnimeAvatar \<times> (string \<times> number) list" where
  "animate rnd a =
     (if \<not> running a then (a, [])
      else case vrmRef a of
        None \<Rightarrow> (a, [])
      | Some v \<Rightarrow>
          (let a1 = a\<lparr>idleTime := tick (idleTime a), blinkTimer := tick (blinkTimer a)\<rparr>
           in if \<not> expressionManager v then (a1, [])
              else
                (let (a2, ws) =
                   (if isBlinking a1 then
                      (if blinkTimer a1 > blinkDuration
                       then (a1\<lparr>isBlinking := False, blinkTimer := 0,
                                 nextBlink := redraw rnd\<rparr>,
                             [(''blink'', Fin 1), (''blink'', Fin 0)])
                       else (a1, [(''blink'', Fin 1)]))
                    else
                      (if blinkTimer a1 > nextBlink a1
                       then (a1\<lparr>isBlinking := True, blinkTimer := 0\<rparr>, [(''blink'', Fin 0)])
                       else (a1, [(''blink'', Fin 0)])))
                 in (a2, ws @ [(''aa'', currentMouthOpen a2),
                               (currentExpression a2, Fin 1)]))))"









section \<open>Producers of the mouth-open value\<close>

text \<open>
  The frame callback the \<^verbatim>\<open>App\<close> component registers with the voice component:
  \<^verbatim>\<open>Math.max(0, Math.min(1, volume))\<close>, then \<^verbatim>\<open>setMouthOpen\<close>.
\<close>

definition onAudioPlayFrame :: "number \<Rightarrow> AnimeAvatar \<Rightarrow> AnimeAvatar" where
  "onAudioPlayFrame volume a =
     (let mouthOpen = Math_max (Fin 0) (Math_min (Fin 1) volume) in setMouthOpen mouthOpen a)"

text \<open>
  The body of the call controller's lip-sync interval. \<open>now\<close> is \<^verbatim>\<open>Date.now()\<close>,
  \<open>rnd\<close> is \<^verbatim>\<open>Math.random()\<close>.
\<close>

definition lipSyncTick :: "real \<Rightarrow> real \<Rightarrow> AnimeAvatar \<Rightarrow> AnimeAvatar" where
  "lipSyncTick now rnd a =
     (let time = now * 0.01;
          baseOpen = 0.2;
          variation = sin (time * 8) * 0.3;
          random = (rnd - 0.5) * 0.1;
          mouthOpen = Math_max (Fin 0) (Math_min (Fin 1) (Fin (baseOpen + variation + random)))
      in setMouthOpen mouthOpen a)"

text \<open>
  What can happen to the avatar between and at frames: the model finishes loading, a
  producer writes through the handle, a frame is drawn.
\<close>

datatype producer =
    VrmLoaded vrm
  | AppLipSyncFrame number
  | CallLipSyncTick real real
  | CallStopLipSync
  | DirectSetMouthOpen number
  | SetExpression string
  | AnimationFrame real

fun produce :: "producer \<Rightarrow> AnimeAvatar \<Rightarrow> AnimeAvatar \<times> (string \<times> number) list" where
  "produce (VrmLoaded v) a = (a\<lparr>vrmRef := Some v\<rparr>, [])"
| "produce (AppLipSyncFrame volume) a = (onAudioPlayFrame volume a, [])"
| "produce (CallLipSyncTick now rnd) a = (lipSyncTick now rnd a, [])"
| "produce CallStopLipSync a = (setMouthOpen (Fin 0) a, [])"
| "produce (DirectSetMouthOpen v) a = (setMouthOpen v a, [])"
| "produce (SetExpression e) a = (setExpression e a, [])"
| "produce (AnimationFrame rnd) a = animate rnd a"

text \<open>All blend-shape weights set while a sequence of events is processed.\<close>

fun applied :: "producer list \<Rightarrow> AnimeAvatar \<Rightarrow> (string \<times> number) list" where
  "applied [] a = []"
| "applied (p # ps) a = snd (produce p a) @ applied ps (fst (produce p a))"

text \<open>
  The producers that clamp: the two lip-sync paths (the \<^verbatim>\<open>App\<close> callback on a raw
  volume that is a number, the call controller on any clock and random values), the
  reset to 0, and any event that does not write the mouth value. A direct
  \<^verbatim>\<open>setMouthOpen\<close> is in range only if its argument is.
\<close>

fun clamping :: "producer \<Rightarrow> bool" where
  "clamping (AppLipSyncFrame volume) = (volume \<noteq> NaN)"
| "clamping (DirectSetMouthOpen v) = in_unit v"
| "clamping _ = True"

section \<open>The application: sending a message\<close>
















section \<open>The voice component: speech with lip sync\<close>

text \<open>
  \<^verbatim>\<open>Voice\<close> and its \<^verbatim>\<open>speakWithLipSync\<close>. Every call of \<^verbatim>\<open>speakWithLipSync\<close>
  that gets past the settings check is a session, numbered in call order; the audio element
  a session creates carries the session's number. The state holds the component's refs and
  flags, and what the browser keeps for it: which sessions wait for the speech audio to be
  fetched, which audio elements exist and which of them are playing (not paused), and the
  animation frames requested and not yet run, each with the session whose
  \<^verbatim>\<open>animateLipSync\<close> closure it will call. \<open>rafId\<close> maps a session to the
  \<^verbatim>\<open>rafId\<close> variable of its closure. \<open>mouthWrites\<close> logs every call of the frame
  callback: the session whose closure made it, and the volume passed.
\<close>

record Voice =
  enabled :: bool
  isSpeaking :: bool
  onAudioPlayFrameRef :: bool
  audioElementRef :: "nat option"
  fetching :: "nat list"
  created :: "nat list"
  playing :: "nat list"
  rafQueue :: "(nat \<times> nat) list"
  rafId :: "(nat \<times> nat) list"
  nextSession :: nat
  nextFrame :: nat
  mouthWrites :: "(nat \<times> number) list"
  avatar :: AnimeAvatar

text \<open>
  The component as mounted, with the \<^verbatim>\<open>App\<close> effect having registered its frame
  callback. Frame request ids start at 1, as in the browser.
\<close>

definition voice_init :: "AnimeAvatar \<Rightarrow> Voice" where
  "voice_init a =
     \<lparr>enabled = True, isSpeaking = False, onAudioPlayFrameRef = True, audioElementRef = None,
      fetching = [], created = [], playing = [], rafQueue = [], rafId = [], nextSession = 0,
      nextFrame = 1, mouthWrites = [], avatar = a\<rparr>"

text \<open>\<^verbatim>\<open>onAudioPlayFrameRef.current(volume)\<close>, called from the closure of session \<open>s\<close>.\<close>

definition frameCallback :: "nat \<Rightarrow> number \<Rightarrow> Voice \<Rightarrow> Voice" where
  "frameCallback s volume v =
     v\<lparr>mouthWrites := mouthWrites v @ [(s, volume)],
       avatar := onAudioPlayFrame volume (avatar v)\<rparr>"

definition requestAnimationFrame :: "nat \<Rightarrow> Voice \<Rightarrow> Voice" where
  "requestAnimationFrame s v =
     v\<lparr>rafQueue := rafQueue v @ [(nextFrame v, s)],
       rafId := (s, nextFrame v) # rafId v,
       nextFrame := Suc (nextFrame v)\<rparr>"

text \<open>\<^verbatim>\<open>if (rafId) cancelAnimationFrame(rafId)\<close> in the closure of session \<open>s\<close>.\<close>

definition cancelAnimationFrame :: "nat \<Rightarrow> Voice \<Rightarrow> Voice" where
  "cancelAnimationFrame s v =
     (case map_of (rafId v) s of
        None \<Rightarrow> v
      | Some i \<Rightarrow> v\<lparr>rafQueue := filter (\<lambda>q. fst q \<noteq> i) (rafQueue v)\<rparr>)"

definition fakeVolume :: "real \<Rightarrow> real" where
  "fakeVolume t = 0.5 + 0.5 * \<bar>sin (t * 8)\<bar>"

text \<open>
  \<^verbatim>\<open>animateLipSync\<close> of session \<open>s\<close>. It looks at the element the shared ref points
  to at the time of the call, whichever session created it; \<open>t\<close> is that element's
  \<^verbatim>\<open>currentTime\<close>.
\<close>

definition animateLipSync :: "nat \<Rightarrow> real \<Rightarrow> Voice \<Rightarrow> Voice" where
  "animateLipSync s t v =
     (case audioElementRef v of
        None \<Rightarrow> v
      | Some a \<Rightarrow>
          if a \<in> set (playing v) \<and> onAudioPlayFrameRef v
          then requestAnimationFrame s (frameCallback s (Fin (fakeVolume t)) v)
          else v)"

text \<open>
  \<^verbatim>\<open>speakWithLipSync\<close> up to its first \<^verbatim>\<open>await\<close>: an element found in the ref is
  paused and dropped, \<open>isSpeaking\<close> is set, and the fetch of the audio begins.
\<close>

definition speakWithLipSync :: "string \<Rightarrow> Voice \<Rightarrow> Voice" where
  "speakWithLipSync txt v =
     (if \<not> enabled v then v
      else
        (let v1 = (case audioElementRef v of
                     None \<Rightarrow> v
                   | Some a \<Rightarrow> v\<lparr>playing := removeAll a (playing v),
                                  audioElementRef := None\<rparr>)
         in v1\<lparr>isSpeaking := True,
                fetching := fetching v1 @ [nextSession v1],
                nextSession := Suc (nextSession v1)\<rparr>))"

text \<open>
  The events that continue a session: the fetch fails (the \<^verbatim>\<open>catch\<close> block) or
  delivers the audio (the element is created, stored in the ref and played), and the
  events the browser fires at the session's element (\<^verbatim>\<open>play\<close>, \<^verbatim>\<open>pause\<close>,
  \<^verbatim>\<open>ended\<close>, \<^verbatim>\<open>error\<close>), and the oldest requested frame of the session running.
  \<^verbatim>\<open>onended\<close> is assigned twice; the second handler is the one in force.
\<close>

datatype voice_event =
    Speak string
  | FetchFailed nat
  | FetchDone nat
  | PlayEvent nat real
  | PauseEvent nat
  | EndedEvent nat
  | ErrorEvent nat
  | Frame nat real

fun voice_step :: "voice_event \<Rightarrow> Voice \<Rightarrow> Voice" where
  "voice_step (Speak txt) v = speakWithLipSync txt v"
| "voice_step (FetchFailed s) v =
     (if s \<in> set (fetching v)
      then v\<lparr>fetching := removeAll s (fetching v), isSpeaking := False\<rparr>
      else v)"
| "voice_step (FetchDone s) v =
     (if s \<in> set (fetching v)
      then v\<lparr>fetching := removeAll s (fetching v),
             audioElementRef := Some s,
             created := created v @ [s],
             playing := playing v @ [s]\<rparr>
      else v)"
| "voice_step (PlayEvent s t) v =
     (if s \<in> set (created v) then animateLipSync s t v else v)"
| "voice_step (PauseEvent s) v =
     (if s \<in> set (created v)
      then (let v1 = cancelAnimationFrame s v
            in if onAudioPlayFrameRef v1 then frameCallback s (Fin 0) v1 else v1)
      else v)"
| "voice_step (EndedEvent s) v =
     (if s \<in> set (created v)
      then (let v1 = cancelAnimationFrame s (v\<lparr>isSpeaking := False\<rparr>)
            in if onAudioPlayFrameRef v1 then frameCallback s (Fin 0) v1 else v1)
      else v)"
| "voice_step (ErrorEvent s) v =
     (if s \<in> set (created v) then v\<lparr>isSpeaking := False\<rparr> else v)"
| "voice_step (Frame s t) v =
     (case filter (\<lambda>q. snd q = s) (rafQueue v) of
        [] \<Rightarrow> v
      | q # qs \<Rightarrow> animateLipSync s t (v\<lparr>rafQueue := removeAll q (rafQueue v)\<rparr>))"

definition voice_run :: "voice_event list \<Rightarrow> Voice \<Rightarrow> Voice" where
  "voice_run evs v = fold voice_step evs v"

text \<open>
  Two runs. In the first the audio of one session starts playing, a frame is sampled, and
  the element then fires \<^verbatim>\<open>error\<close> (or, for comparison, \<^verbatim>\<open>ended\<close>). In the second
  \<^verbatim>\<open>speak\<close> is called twice before either fetch has delivered its audio; both
  elements then play.
\<close>

definition speech_until_sampled :: "voice_event list" where
  "speech_until_sampled = [Speak ''hello'', FetchDone 0, PlayEvent 0 0, Frame 0 0]"

definition overlapping_speech :: "voice_event list" where
  "overlapping_speech =
     [Speak ''first'', Speak ''second'', FetchDone 0, FetchDone 1,
      PlayEvent 0 0, PlayEvent 1 0, Frame 0 0, Frame 1 0, Frame 0 0]"

section \<open>The call controller\<close>

text \<open>
  \<^verbatim>\<open>Call\<close>: its state, its refs, and the timers the browser holds for it. An interval
  is its id and the callback it runs; a pending timeout is its id and the expression its
  callback will restore. Ids are fresh positive numbers. The handlers passed to the
  conversation SDK are closures of the \<^verbatim>\<open>startCall\<close> that created them, so they read
  \<^verbatim>\<open>currentTranscript\<close> and \<^verbatim>\<open>currentEmotion\<close> as they were when
  \<^verbatim>\<open>startCall\<close> was called: \<open>closureTranscript\<close> and \<open>closureEmotion\<close>.
  \<open>avatarRef\<close> is the mounted avatar.
\<close>

datatype agentStatus = Disconnected | Connecting | Connected | Failed

datatype mode = speaking | listening

datatype interval_kind =
  LipSyncInterval | BlinkInterval | HeadMovementInterval | CallTimerInterval

record Call =
  call_isInCall :: bool
  call_isProcessing :: bool
  isListening :: bool
  callDuration :: nat
  currentTranscript :: string
  agentStatus :: agentStatus
  currentEmotion :: string
  callTimerRef :: "nat option"
  conversationRef :: bool
  lipSyncIntervalRef :: "nat option"
  blinkIntervalRef :: "nat option"
  headMovementIntervalRef :: "nat option"
  intervals :: "(nat \<times> interval_kind) list"
  timeouts :: "(nat \<times> string) list"
  nextTimer :: nat
  handlersInstalled :: bool
  closureTranscript :: string
  closureEmotion :: string
  avatarRef :: AnimeAvatar

definition call_init :: "AnimeAvatar \<Rightarrow> Call" where
  "call_init a =
     \<lparr>call_isInCall = False, call_isProcessing = False, isListening = False,
      callDuration = 0, currentTranscript = [], agentStatus = Disconnected,
      currentEmotion = ''neutral'', callTimerRef = None, conversationRef = False,
      lipSyncIntervalRef = None, blinkIntervalRef = None, headMovementIntervalRef = None,
      intervals = [], timeouts = [], nextTimer = 1, handlersInstalled = False,
      closureTranscript = [], closureEmotion = ''neutral'', avatarRef = a\<rparr>"

text \<open>\<^verbatim>\<open>window.setInterval\<close> (the id it returns is \<open>nextTimer\<close> before the call) and
  \<^verbatim>\<open>clearInterval\<close>.\<close>

definition setInterval :: "interval_kind \<Rightarrow> Call \<Rightarrow> Call" where
  "setInterval k c =
     c\<lparr>intervals := intervals c @ [(nextTimer c, k)], nextTimer := Suc (nextTimer c)\<rparr>"

definition clearInterval :: "nat \<Rightarrow> Call \<Rightarrow> Call" where
  "clearInterval i c = c\<lparr>intervals := filter (\<lambda>p. fst p \<noteq> i) (intervals c)\<rparr>"

definition startLipSync :: "Call \<Rightarrow> Call" where
  "startLipSync c =
     (let c1 = (case lipSyncIntervalRef c of None \<Rightarrow> c | Some i \<Rightarrow> clearInterval i c)
      in (setInterval LipSyncInterval c1)\<lparr>lipSyncIntervalRef := Some (nextTimer c1)\<rparr>)"

definition stopLipSync :: "Call \<Rightarrow> Call" where
  "stopLipSync c =
     (let c1 = (case lipSyncIntervalRef c of
                  None \<Rightarrow> c
                | Some i \<Rightarrow> (clearInterval i c)\<lparr>lipSyncIntervalRef := None\<rparr>)
      in c1\<lparr>avatarRef := setMouthOpen (Fin 0) (avatarRef c1)\<rparr>)"

definition startBlinking :: "Call \<Rightarrow> Call" where
  "startBlinking c =
     (let c1 = (case blinkIntervalRef c of None \<Rightarrow> c | Some i \<Rightarrow> clearInterval i c)
      in (setInterval BlinkInterval c1)\<lparr>blinkIntervalRef := Some (nextTimer c1)\<rparr>)"

definition stopBlinking :: "Call \<Rightarrow> Call" where
  "stopBlinking c =
     (case blinkIntervalRef c of
        None \<Rightarrow> c
      | Some i \<Rightarrow> (clearInterval i c)\<lparr>blinkIntervalRef := None\<rparr>)"

definition startHeadMovement :: "Call \<Rightarrow> Call" where
  "startHeadMovement c =
     (let c1 = (case headMovementIntervalRef c of None \<Rightarrow> c | Some i \<Rightarrow> clearInterval i c)
      in (setInterval HeadMovementInterval c1)\<lparr>headMovementIntervalRef := Some (nextTimer c1)\<rparr>)"

definition stopHeadMovement :: "Call \<Rightarrow> Call" where
  "stopHeadMovement c =
     (case headMovementIntervalRef c of
        None \<Rightarrow> c
      | Some i \<Rightarrow> (clearInterval i c)\<lparr>headMovementIntervalRef := None\<rparr>)"

definition setAvatarEmotion :: "string \<Rightarrow> Call \<Rightarrow> Call" where
  "setAvatarEmotion e c = c\<lparr>currentEmotion := e, avatarRef := setExpression e (avatarRef c)\<rparr>"

text \<open>The handlers given to \<^verbatim>\<open>Conversation.startSession\<close>.\<close>

definition onConnect :: "Call \<Rightarrow> Call" where
  "onConnect c =
     (let c1 = startHeadMovement (startBlinking
                 (c\<lparr>agentStatus := Connected, call_isInCall := True\<rparr>))
      in (setInterval CallTimerInterval c1)\<lparr>callTimerRef := Some (nextTimer c1)\<rparr>)"

definition onDisconnect :: "Call \<Rightarrow> Call" where
  "onDisconnect c =
     (let c1 = c\<lparr>agentStatus := Disconnected, call_isInCall := False, isListening := False\<rparr>
      in case callTimerRef c1 of None \<Rightarrow> c1 | Some i \<Rightarrow> clearInterval i c1)"

definition onError :: "Call \<Rightarrow> Call" where
  "onError c = c\<lparr>agentStatus := Failed\<rparr>"

fun onModeChange :: "mode \<Rightarrow> Call \<Rightarrow> Call" where
  "onModeChange speaking c =
     (let c1 = startHeadMovement (startBlinking (startLipSync
                 (c\<lparr>isListening := False, call_isProcessing := True\<rparr>)))
      in if closureTranscript c1 \<noteq> []
         then setAvatarEmotion (analyzeEmotion (closureTranscript c1)) c1
         else c1)"
| "onModeChange listening c =
     setAvatarEmotion ''neutral''
       (startHeadMovement (startBlinking (stopLipSync
          (c\<lparr>isListening := True, call_isProcessing := False\<rparr>))))"

definition endCall :: "Call \<Rightarrow> Call" where
  "endCall c =
     (let c1 = stopHeadMovement (stopBlinking (stopLipSync c));
          c2 = c1\<lparr>conversationRef := False\<rparr>;
          c3 = (case callTimerRef c2 of None \<Rightarrow> c2 | Some i \<Rightarrow> clearInterval i c2);
          c4 = c3\<lparr>avatarRef := setMouthOpen (Fin 0) (setExpression ''neutral'' (avatarRef c3))\<rparr>
      in c4\<lparr>call_isInCall := False, isListening := False, callDuration := 0,
             currentTranscript := [], currentEmotion := ''neutral'',
             agentStatus := Disconnected\<rparr>)"

text \<open>
  The callbacks of the intervals. The blink interval draws \<open>rnd\<close> and, below 0.02, sets
  the expression \<open>blink\<close> and schedules the timeout that restores the emotion read by the
  closure. The avatar handle has no \<^verbatim>\<open>setHeadPosition\<close>, so the head-movement
  callback changes nothing.
\<close>

definition intervalCallback :: "interval_kind \<Rightarrow> real \<Rightarrow> real \<Rightarrow> Call \<Rightarrow> Call" where
  "intervalCallback k now rnd c =
     (case k of
        LipSyncInterval \<Rightarrow> c\<lparr>avatarRef := lipSyncTick now rnd (avatarRef c)\<rparr>
      | BlinkInterval \<Rightarrow>
          if rnd < 0.02
          then c\<lparr>avatarRef := setExpression ''blink'' (avatarRef c),
                 timeouts := timeouts c @ [(nextTimer c, closureEmotion c)],
                 nextTimer := Suc (nextTimer c)\<rparr>
          else c
      | HeadMovementInterval \<Rightarrow> c
      | CallTimerInterval \<Rightarrow> c\<lparr>callDuration := callDuration c + 1\<rparr>)"

text \<open>
  The events of a call: the user starts it, the microphone is denied or granted (then the
  session is requested with the handlers), the session request fails or resolves, the SDK
  calls a handler, the user ends the call, an interval fires (with the clock value and the
  random draw its callback reads) or a timeout fires.
\<close>

datatype call_event =
    StartCall
  | MicrophoneDenied
  | MicrophoneGranted
  | SessionFailed
  | SessionStarted
  | OnConnect
  | OnDisconnect
  | OnError
  | OnModeChange mode
  | EndCall
  | IntervalFires nat real real
  | TimeoutFires nat

fun call_step :: "call_event \<Rightarrow> Call \<Rightarrow> Call" where
  "call_step StartCall c =
     c\<lparr>agentStatus := Connecting, closureTranscript := currentTranscript c,
       closureEmotion := currentEmotion c\<rparr>"
| "call_step MicrophoneDenied c = c\<lparr>agentStatus := Failed\<rparr>"
| "call_step MicrophoneGranted c = c\<lparr>handlersInstalled := True\<rparr>"
| "call_step SessionFailed c = c\<lparr>agentStatus := Failed\<rparr>"
| "call_step SessionStarted c = c\<lparr>conversationRef := True\<rparr>"
| "call_step OnConnect c = (if handlersInstalled c then onConnect c else c)"
| "call_step OnDisconnect c = (if handlersInstalled c then onDisconnect c else c)"
| "call_step OnError c = (if handlersInstalled c then onError c else c)"
| "call_step (OnModeChange m) c = (if handlersInstalled c then onModeChange m c else c)"
| "call_step EndCall c = endCall c"
| "call_step (IntervalFires i now rnd) c =
     (case map_of (intervals c) i of
        None \<Rightarrow> c
      | Some k \<Rightarrow> intervalCallback k now rnd c)"
| "call_step (TimeoutFires i) c =
     (case map_of (timeouts c) i of
        None \<Rightarrow> c
      | Some e \<Rightarrow> c\<lparr>timeouts := filter (\<lambda>p. fst p \<noteq> i) (timeouts c),
                     avatarRef := setExpression e (avatarRef c)\<rparr>)"

definition call_run :: "call_event list \<Rightarrow> Call \<Rightarrow> Call" where
  "call_run evs c = fold call_step evs c"

text \<open>A call that has connected and whose agent has begun to speak.\<close>

definition call_speaking :: "call_event list" where
  "call_speaking =
     [StartCall, MicrophoneGranted, OnConnect, SessionStarted, OnModeChange speaking]"

section \<open>Sample inputs\<close>

text \<open>
  A sequence of producer events with raw volumes above 1 and below 0, and two avatars
  with a loaded model: one in the last frame of a blink, one whose next blink is due.
  \<open>late_draw\<close> is a random draw close to 1. \<open>kelvin_like_you\<close> is the text
  \<open>I like you\<close> written with the Kelvin sign for the letter k.
\<close>

definition kelvin_like_you :: string where
  "kelvin_like_you = ''I li'' @ [CHR 0xE2, CHR 0x84, CHR 0xAA] @ ''e you''"


definition sample_producers :: "producer list" where
  "sample_producers =
     [VrmLoaded \<lparr>expressionManager = True\<rparr>, AppLipSyncFrame (Fin 2), AnimationFrame 0,
      AppLipSyncFrame (Fin (- 1)), AnimationFrame 0, CallLipSyncTick 0 (1 / 2),
      AnimationFrame 0, DirectSetMouthOpen (Fin (1 / 2)), AnimationFrame 0]"



section \<open>Properties\<close>

subsection \<open>Emotion classification\<close>

lemma str_includes_sublist: "str_includes s k \<longleftrightarrow> sublist k s"
  by (induction s) (auto simp: sublist_Cons_right)

text \<open>
  Claim C6, as the code has it. A text that matches none of the keyword rules is
  classified \<open>neutral\<close> by \<open>analyzeEmotion\<close> in the call controller; the AI service's
  \<open>detectEmotion\<close> has a different default and classifies such a text \<open>joy\<close>.
\<close>

theorem classifier_defaults:
  "(matches_none analyzeEmotion_keywords txt \<longrightarrow> analyzeEmotion txt = ''neutral'')
 \<and> (matches_none detectEmotion_keywords txt \<longrightarrow> detectEmotion txt = ''joy'')"
  by (simp add: matches_none_def analyzeEmotion_keywords_def detectEmotion_keywords_def
      analyzeEmotion_def detectEmotion_def Let_def)

theorem classifier_defaults_witness:
  "matches_none analyzeEmotion_keywords ''ok'' \<and> analyzeEmotion ''ok'' = ''neutral''
 \<and> matches_none detectEmotion_keywords ''ok'' \<and> detectEmotion ''ok'' = ''joy''"
proof -
  have h1: "matches_none analyzeEmotion_keywords ''ok''" by code_simp
  have h2: "matches_none detectEmotion_keywords ''ok''" by code_simp
  from classifier_defaults [of "''ok''"] h1 h2 show ?thesis by blast
qed

text \<open>
  The claim as stated fails for \<open>detectEmotion\<close>: the text \<open>ok\<close> matches none of its
  rules and is not classified \<open>neutral\<close>.
\<close>

theorem detectEmotion_default_not_neutral:
  "matches_none detectEmotion_keywords ''ok'' \<and> detectEmotion ''ok'' \<noteq> ''neutral''"
  by code_simp



subsection \<open>Text generation\<close>

lemma generateLocalResponse_defined:
  "0 \<le> rnd \<Longrightarrow> rnd < 1 \<Longrightarrow> \<exists>fb. generateLocalResponse msg rnd = Some fb"
  by (simp add: generateLocalResponse_def Let_def js_index_def responses_def floor_less_iff)

text \<open>
  Claim C8. Whatever error the configured provider call throws, \<open>generateResponse\<close>
  resolves: the result is the reply of the local generator for the same message, its text
  followed by the note. The random draw of the fallback is a value of
  \<^verbatim>\<open>Math.random()\<close>, that is, in [0,1).
\<close>

theorem generateResponse_falls_back:
  assumes "0 \<le> rnd2" and "rnd2 < 1"
    and "AIService_generateResponse serviceToUse userMessage remote rnd1 = Inl e"
  shows "\<exists>fb. generateLocalResponse userMessage rnd2 = Some fb
           \<and> generateResponse serviceToUse userMessage remote rnd1 rnd2
               = Inr \<lparr>text' = text' fb @ degraded_note, emotion = emotion fb\<rparr>"
proof -
  from generateLocalResponse_defined [OF assms(1,2)]
  obtain fb where fb: "generateLocalResponse userMessage rnd2 = Some fb" by blast
  show ?thesis
    using fb assms(3)
    by (simp add: generateResponse_def fallbackResponse_def AIService_generateResponse_def)
qed

theorem generateResponse_falls_back_witness:
  "(0::real) \<le> 0 \<and> (0::real) < 1
 \<and> AIService_generateResponse aiService ''hello'' (Inl RateLimited) 0 = Inl RateLimited
 \<and> (\<exists>fb. generateLocalResponse ''hello'' 0 = Some fb
        \<and> generateResponse aiService ''hello'' (Inl RateLimited) 0 0
            = Inr \<lparr>text' = text' fb @ degraded_note, emotion = emotion fb\<rparr>)"
proof -
  have h: "AIService_generateResponse aiService ''hello'' (Inl RateLimited) 0 = Inl RateLimited"
    by (simp add: AIService_generateResponse_def aiService_def generateRemoteResponse_def)
  have z: "(0::real) \<le> 0" "(0::real) < 1" by simp_all
  from generateResponse_falls_back [OF z h] h z show ?thesis by blast
qed

lemma kelvin_like_you_matches:
  "toLowerCase kelvin_like_you = ''i like you''
 \<and> \<not> matches_none generateLocalResponse_keywords kelvin_like_you"
  by code_simp

text \<open>
  Claim C9, as the code has it. A message whose lower-cased text contains one of the
  generator's keywords gets the same reply whatever the random draw. Any other message
  gets one of the seven canned replies, picked by the draw: the first for the draw 0 and
  the fourth for the draw 1/2, which differ.
\<close>

theorem generateLocalResponse_keyword_deterministic:
  "(\<not> matches_none generateLocalResponse_keywords msg \<longrightarrow>
      generateLocalResponse msg r1 = generateLocalResponse msg r2)
 \<and> (matches_none generateLocalResponse_keywords msg \<longrightarrow>
      generateLocalResponse msg 0 = Some (responses ! 0)
    \<and> generateLocalResponse msg (1 / 2) = Some (responses ! 3)
    \<and> generateLocalResponse msg 0 \<noteq> generateLocalResponse msg (1 / 2)
    \<and> (0 \<le> r \<and> r < 1 \<longrightarrow> generateLocalResponse msg r \<in> Some ` set responses))"
proof (intro conjI impI)
  assume "\<not> matches_none generateLocalResponse_keywords msg"
  then show "generateLocalResponse msg r1 = generateLocalResponse msg r2"
    by (auto simp: matches_none_def generateLocalResponse_keywords_def
        generateLocalResponse_def Let_def)
next
  assume "matches_none generateLocalResponse_keywords msg"
  then have g: "generateLocalResponse msg x = js_index responses \<lfloor>x * 7\<rfloor>" for x
    by (simp add: matches_none_def generateLocalResponse_keywords_def
        generateLocalResponse_def Let_def responses_def)
  show "generateLocalResponse msg 0 = Some (responses ! 0)"
    "generateLocalResponse msg (1 / 2) = Some (responses ! 3)"
    "generateLocalResponse msg 0 \<noteq> generateLocalResponse msg (1 / 2)"
    unfolding g by (simp_all add: js_index_def responses_def)
  assume r: "0 \<le> r \<and> r < 1"
  then have "0 \<le> \<lfloor>r * 7\<rfloor>" "\<lfloor>r * 7\<rfloor> < 7" by (simp_all add: floor_less_iff)
  then have "nat \<lfloor>r * 7\<rfloor> < 7" by linarith
  moreover have "length responses = 7" by (simp add: responses_def)
  ultimately have "nat \<lfloor>r * 7\<rfloor> < length responses" by simp
  then have "responses ! nat \<lfloor>r * 7\<rfloor> \<in> set responses" by (rule nth_mem)
  moreover have "js_index responses \<lfloor>r * 7\<rfloor> = Some (responses ! nat \<lfloor>r * 7\<rfloor>)"
    using \<open>0 \<le> \<lfloor>r * 7\<rfloor>\<close> \<open>\<lfloor>r * 7\<rfloor> < 7\<close> \<open>length responses = 7\<close>
    unfolding js_index_def by (simp del: zero_le_floor floor_less_iff)
  ultimately show "generateLocalResponse msg r \<in> Some ` set responses"
    unfolding g by simp
qed

theorem generateLocalResponse_keyword_deterministic_witness:
  "\<not> matches_none generateLocalResponse_keywords ''Hello there''
 \<and> generateLocalResponse ''Hello there'' 0 = generateLocalResponse ''Hello there'' (1 / 2)
 \<and> matches_none generateLocalResponse_keywords ''ok''
 \<and> generateLocalResponse ''ok'' 0 = Some (responses ! 0)
 \<and> generateLocalResponse ''ok'' (1 / 2) = Some (responses ! 3)
 \<and> generateLocalResponse ''ok'' 0 \<noteq> generateLocalResponse ''ok'' (1 / 2)
 \<and> (0::real) \<le> 1 / 4 \<and> (1 / 4 :: real) < 1
 \<and> generateLocalResponse ''ok'' (1 / 4) \<in> Some ` set responses"
proof -
  have h1: "\<not> matches_none generateLocalResponse_keywords ''Hello there''" by code_simp
  have h2: "matches_none generateLocalResponse_keywords ''ok''" by code_simp
  have z: "(0::real) \<le> 1 / 4 \<and> (1 / 4 :: real) < 1" by simp
  from generateLocalResponse_keyword_deterministic [of "''Hello there''" 0 "1 / 2"]
    generateLocalResponse_keyword_deterministic [of "''ok''" 0 0 "1 / 4"] h1 h2 z
  show ?thesis by blast
qed

text \<open>
  The claim as stated fails: the message \<open>ok\<close> gets two different replies for the
  draws 0 and 1/2.
\<close>

theorem generateLocalResponse_not_deterministic:
  "generateLocalResponse ''ok'' 0 \<noteq> generateLocalResponse ''ok'' (1 / 2)"
  by (simp add: generateLocalResponse_def toLowerCase_char_def js_index_def responses_def)

subsection \<open>Blend-shape weights stay in range\<close>

lemma clamp_in_unit: "v \<noteq> NaN \<Longrightarrow> in_unit (Math_max (Fin 0) (Math_min (Fin 1) v))"
  by (cases v) (auto simp: Math_max_def Math_min_def)

lemma produce_keeps_mouth:
  "clamping p \<Longrightarrow> in_unit (currentMouthOpen a) \<Longrightarrow>
   in_unit (currentMouthOpen (fst (produce p a)))"
  by (cases p)
    (auto simp: onAudioPlayFrame_def lipSyncTick_def setMouthOpen_def setExpression_def
      clamp_in_unit Let_def animate_def split: option.splits prod.splits if_splits)

lemma produce_writes_in_unit:
  "in_unit (currentMouthOpen a) \<Longrightarrow> w \<in> set (snd (produce p a)) \<Longrightarrow> in_unit (snd w)"
  by (cases p) (auto simp: Let_def animate_def split: option.splits prod.splits if_splits)

text \<open>
  Claim C1, as the code has it. Starting with a mouth value in [0,1] (it is 0 at mount),
  every weight set on any blend shape, in particular on \<open>aa\<close> and on \<open>blink\<close>, lies
  in [0,1] as long as the mouth value is written by the two lip-sync paths (which clamp
  any raw value that is a number, negative, above 1 or infinite) or reset to 0. The
  handle's \<open>setMouthOpen\<close> stores its argument as it is, so a direct call keeps the
  range only when its argument is in range.
\<close>

theorem applied_weights_in_unit:
  "in_unit (currentMouthOpen a) \<Longrightarrow> \<forall>p\<in>set ps. clamping p \<Longrightarrow>
   \<forall>w\<in>set (applied ps a). in_unit (snd w)"
proof (induction ps arbitrary: a)
  case Nil
  then show ?case by simp
next
  case (Cons p ps)
  then show ?case
    using produce_keeps_mouth [of p a] produce_writes_in_unit [of a _ p] by auto
qed

theorem applied_weights_in_unit_witness:
  "in_unit (currentMouthOpen (mount 0)) \<and> list_all clamping sample_producers
 \<and> list_all (\<lambda>w. in_unit (snd w)) (applied sample_producers (mount 0))"
proof -
  have h1: "in_unit (currentMouthOpen (mount 0))" by (simp add: mount_def)
  have h2: "\<forall>p\<in>set sample_producers. clamping p" by (simp add: sample_producers_def)
  from applied_weights_in_unit [OF h1 h2] h1 h2 show ?thesis
    unfolding list_all_iff by blast
qed

text \<open>
  The claim as stated fails for direct calls: after \<open>setMouthOpen(2)\<close> the next frame
  sets the \<open>aa\<close> shape to 2.
\<close>

theorem setMouthOpen_unclamped:
  "(''aa'', Fin 2) \<in> set (applied [VrmLoaded \<lparr>expressionManager = True\<rparr>,
       DirectSetMouthOpen (Fin 2), AnimationFrame 0] (mount 0))
 \<and> \<not> in_unit (Fin 2)"
  by (auto simp: mount_def animate_def setMouthOpen_def Let_def)

subsection \<open>Rounding\<close>

















subsection \<open>The blink state machine\<close>


























subsection \<open>One message at a time\<close>






subsection \<open>Speech sessions and the mouth\<close>

lemmas voice_defs = voice_run_def voice_init_def speakWithLipSync_def animateLipSync_def
  requestAnimationFrame_def cancelAnimationFrame_def frameCallback_def fakeVolume_def
  onAudioPlayFrame_def setMouthOpen_def Math_max_def Math_min_def mount_def Let_def

text \<open>
  What \<^verbatim>\<open>speakWithLipSync\<close> does for an element it finds in the ref: the element is
  paused and the ref emptied, and with the ref empty no sampling loop writes or asks for
  another frame.
\<close>

lemma speak_pauses_installed_audio:
  "enabled v \<Longrightarrow> audioElementRef v = Some a \<Longrightarrow>
   a \<notin> set (playing (speakWithLipSync txt v))
   \<and> audioElementRef (speakWithLipSync txt v) = None
   \<and> mouthWrites (speakWithLipSync txt v) = mouthWrites v"
  by (simp add: speakWithLipSync_def)

lemma animateLipSync_without_audio:
  "audioElementRef v = None \<Longrightarrow> animateLipSync s t v = v"
  by (simp add: animateLipSync_def)

lemma ended_closes_mouth:
  "s \<in> set (created v) \<Longrightarrow> onAudioPlayFrameRef v \<Longrightarrow>
   currentMouthOpen (avatar (voice_step (EndedEvent s) v)) = Fin 0"
  by (simp add: voice_defs split: option.splits)

text \<open>
  Claim C2 says that a second \<^verbatim>\<open>speak\<close> stops the first session, so that the first
  writes no mouth value once the second has started. The code stops only an element
  that is already in the ref. When \<^verbatim>\<open>speak\<close> is called again while the first
  session is still fetching its audio (\<open>isSpeaking\<close> is set, the ref is empty), nothing
  is paused: both elements end up playing, the ref points to the second, and the sampling
  loops of both sessions write the mouth value in turn.
\<close>

theorem overlapping_speech_both_write:
  "isSpeaking (voice_run [Speak ''first''] (voice_init (mount 0)))
 \<and> audioElementRef (voice_run [Speak ''first''] (voice_init (mount 0))) = None
 \<and> playing (voice_run overlapping_speech (voice_init (mount 0))) = [0, 1]
 \<and> audioElementRef (voice_run overlapping_speech (voice_init (mount 0))) = Some 1
 \<and> map fst (mouthWrites (voice_run overlapping_speech (voice_init (mount 0))))
      = [0, 1, 0, 1, 0]"
  by (simp add: overlapping_speech_def voice_defs)

text \<open>
  Claim C4 says that the driver stops sampling and sets the mouth to 0 when the audio ends
  and when it errors. The \<^verbatim>\<open>ended\<close> handler does both. The \<^verbatim>\<open>error\<close> handler
  only clears \<open>isSpeaking\<close>: it never touches the avatar or the requested frames. In
  the run below the mouth stays at 0.5 after the error, the requested frame is still
  queued, and the next frame writes 0.5 again; after \<^verbatim>\<open>ended\<close> instead, the mouth is 0
  and no frame is queued.
\<close>

theorem error_event_leaves_mouth_open:
  "avatar (voice_step (ErrorEvent s) v) = avatar v
 \<and> rafQueue (voice_step (ErrorEvent s) v) = rafQueue v
 \<and> currentMouthOpen (avatar (voice_run (speech_until_sampled @ [ErrorEvent 0])
        (voice_init (mount 0)))) = Fin (1 / 2)
 \<and> rafQueue (voice_run (speech_until_sampled @ [ErrorEvent 0]) (voice_init (mount 0)))
      = [(2, 0)]
 \<and> mouthWrites (voice_run (speech_until_sampled @ [ErrorEvent 0, Frame 0 0])
        (voice_init (mount 0))) = [(0, Fin (1 / 2)), (0, Fin (1 / 2)), (0, Fin (1 / 2))]
 \<and> currentMouthOpen (avatar (voice_run (speech_until_sampled @ [EndedEvent 0])
        (voice_init (mount 0)))) = Fin 0
 \<and> rafQueue (voice_run (speech_until_sampled @ [EndedEvent 0]) (voice_init (mount 0))) = []"
  by (simp add: speech_until_sampled_def voice_defs)

subsection \<open>Ending a call\<close>

lemmas call_defs = call_run_def call_init_def call_speaking_def onConnect_def onDisconnect_def
  onError_def endCall_def startLipSync_def stopLipSync_def startBlinking_def stopBlinking_def
  startHeadMovement_def stopHeadMovement_def setInterval_def clearInterval_def
  setAvatarEmotion_def intervalCallback_def lipSyncTick_def setMouthOpen_def setExpression_def
  Math_max_def Math_min_def mount_def Let_def

text \<open>What \<^verbatim>\<open>endCall\<close> leaves behind, in any state.\<close>

lemma endCall_resets:
  "currentMouthOpen (avatarRef (endCall c)) = Fin 0
 \<and> currentExpression (avatarRef (endCall c)) = ''neutral''
 \<and> lipSyncIntervalRef (endCall c) = None
 \<and> blinkIntervalRef (endCall c) = None
 \<and> headMovementIntervalRef (endCall c) = None"
  by (simp add: endCall_def stopLipSync_def stopBlinking_def stopHeadMovement_def
      clearInterval_def setMouthOpen_def setExpression_def Let_def split: option.splits)

text \<open>
  Claim C3 says that \<^verbatim>\<open>endCall\<close>, \<^verbatim>\<open>onDisconnect\<close> and \<^verbatim>\<open>onError\<close> alike stop
  the lip-sync, blinking and head-movement timers and reset the avatar. \<^verbatim>\<open>endCall\<close>
  does. \<^verbatim>\<open>onDisconnect\<close> clears only the call-duration timer and \<^verbatim>\<open>onError\<close>
  clears nothing: in a call whose agent is speaking, the three animation intervals are
  still running after either event, and the next lip-sync tick opens the mouth to 0.2.
  After \<^verbatim>\<open>endCall\<close> in the same call no interval is left, the mouth is 0 and the
  expression neutral; only a blink's restore timeout scheduled just before may still fire.
\<close>

theorem disconnect_keeps_animation_timers:
  "avatarRef (onDisconnect c) = avatarRef c
 \<and> lipSyncIntervalRef (onDisconnect c) = lipSyncIntervalRef c
 \<and> avatarRef (onError c) = avatarRef c
 \<and> intervals (onError c) = intervals c
 \<and> intervals (call_run (call_speaking @ [OnDisconnect]) (call_init (mount 0)))
     = [(4, LipSyncInterval), (5, BlinkInterval), (6, HeadMovementInterval)]
 \<and> lipSyncIntervalRef (call_run (call_speaking @ [OnDisconnect]) (call_init (mount 0)))
     = Some 4
 \<and> currentMouthOpen (avatarRef (call_run
       (call_speaking @ [OnDisconnect, IntervalFires 4 0 (1 / 2)]) (call_init (mount 0))))
     = Fin (1 / 5)
 \<and> intervals (call_run (call_speaking @ [OnError]) (call_init (mount 0)))
     = [(3, CallTimerInterval), (4, LipSyncInterval), (5, BlinkInterval),
        (6, HeadMovementInterval)]
 \<and> currentMouthOpen (avatarRef (call_run
       (call_speaking @ [OnError, IntervalFires 4 0 (1 / 2)]) (call_init (mount 0))))
     = Fin (1 / 5)
 \<and> intervals (call_run (call_speaking @ [IntervalFires 4 0 (1 / 2), EndCall])
       (call_init (mount 0))) = []
 \<and> currentMouthOpen (avatarRef (call_run
       (call_speaking @ [IntervalFires 4 0 (1 / 2), EndCall]) (call_init (mount 0))))
     = Fin 0
 \<and> currentExpression (avatarRef (call_run
       (call_speaking @ [IntervalFires 4 0 (1 / 2), EndCall]) (call_init (mount 0))))
     = ''neutral''
 \<and> timeouts (call_run (call_speaking @ [IntervalFires 5 0 0, EndCall])
       (call_init (mount 0))) = [(7, ''neutral'')]"
  by (simp add: call_defs split: option.splits)

end
